theory Spec2Isabelle
  imports Complex_Main "HOL-Library.AList" "HOL-Library.Char_ord" "HOL-Library.List_Lexorder"
    "HOL-Library.Product_Lexorder"
begin

section \<open>Errors\<close>

text \<open>
  The exceptions the modelled Python code can raise. A function that can raise returns
  \<open>error + 'a\<close>, with \<open>Inl\<close> carrying the exception.
\<close>

datatype error = ValueError | OverflowError | RuntimeError | TypeError | IndexError | DatabaseError

section \<open>Calendar dates\<close>

text \<open>
  A \<^verbatim>\<open>datetime.date\<close> is modelled by its proleptic Gregorian ordinal
  (\<^verbatim>\<open>date.toordinal()\<close>, day 1 is 0001-01-01), which is how the standard library
  itself adds a \<^verbatim>\<open>timedelta\<close>. The conversions below follow the library's
  \<^verbatim>\<open>_ymd2ord\<close> and \<^verbatim>\<open>_ord2ymd\<close>.
\<close>

type_synonym date = int

definition MINYEAR :: int where "MINYEAR = 1"
definition MAXYEAR :: int where "MAXYEAR = 9999"
definition MAXORDINAL :: int where "MAXORDINAL = 3652059"

definition is_leap :: "int \<Rightarrow> bool" where
  "is_leap y \<longleftrightarrow> y mod 4 = 0 \<and> (y mod 100 \<noteq> 0 \<or> y mod 400 = 0)"

text \<open>The table \<^verbatim>\<open>_DAYS_IN_MONTH = [-1, 31, 28, 31, 30, 31, 30, 31, 31, 30, 31, 30, 31]\<close>.\<close>

definition DAYS_IN_MONTH :: "int \<Rightarrow> int" where
  "DAYS_IN_MONTH m =
     (if m = 2 then 28
      else if m = 4 \<or> m = 6 \<or> m = 9 \<or> m = 11 then 30
      else 31)"

text \<open>The table \<^verbatim>\<open>_DAYS_BEFORE_MONTH\<close>: days before the first of month \<open>m\<close> in a common year.\<close>

definition DAYS_BEFORE_MONTH :: "int \<Rightarrow> int" where
  "DAYS_BEFORE_MONTH m =
     (if m = 1 then 0 else if m = 2 then 31 else if m = 3 then 59
      else if m = 4 then 90 else if m = 5 then 120 else if m = 6 then 151
      else if m = 7 then 181 else if m = 8 then 212 else if m = 9 then 243
      else if m = 10 then 273 else if m = 11 then 304 else 334)"

definition days_before_year :: "int \<Rightarrow> int" where
  "days_before_year year =
     (let y = year - 1 in y * 365 + y div 4 - y div 100 + y div 400)"

definition days_in_month :: "int \<Rightarrow> int \<Rightarrow> int" where
  "days_in_month year month =
     (if month = 2 \<and> is_leap year then 29 else DAYS_IN_MONTH month)"

definition days_before_month :: "int \<Rightarrow> int \<Rightarrow> int" where
  "days_before_month year month =
     DAYS_BEFORE_MONTH month + (if month > 2 \<and> is_leap year then 1 else 0)"

definition ymd2ord :: "int \<Rightarrow> int \<Rightarrow> int \<Rightarrow> date" where
  "ymd2ord year month day = days_before_year year + days_before_month year month + day"

definition DI400Y :: int where "DI400Y = 146097"
definition DI100Y :: int where "DI100Y = 36524"
definition DI4Y :: int where "DI4Y = 1461"

text \<open>
  The second half of \<^verbatim>\<open>_ord2ymd\<close>: month and day from the zero-based day of the
  year \<open>n\<close>. The month is estimated by \<^verbatim>\<open>(n + 50) >> 5\<close> and corrected downwards
  when the estimate is too large.
\<close>

definition month_and_day :: "bool \<Rightarrow> int \<Rightarrow> int \<times> int" where
  "month_and_day leapyear n =
     (let month = (n + 50) div 32;
          preceding = DAYS_BEFORE_MONTH month + (if month > 2 \<and> leapyear then 1 else 0)
      in if preceding > n
         then (month - 1,
               n - (preceding - (DAYS_IN_MONTH (month - 1)
                                 + (if month - 1 = 2 \<and> leapyear then 1 else 0))) + 1)
         else (month, n - preceding + 1))"

definition ord2ymd :: "date \<Rightarrow> int \<times> int \<times> int" where
  "ord2ymd ordinal =
     (let n = ordinal - 1;
          n400 = n div DI400Y; n = n mod DI400Y;
          n100 = n div DI100Y; n = n mod DI100Y;
          n4 = n div DI4Y; n = n mod DI4Y;
          n1 = n div 365; n = n mod 365;
          year = n400 * 400 + 1 + n100 * 100 + n4 * 4 + n1
      in if n1 = 4 \<or> n100 = 4 then (year - 1, 12, 31)
         else (year, month_and_day (n1 = 3 \<and> (n4 \<noteq> 24 \<or> n100 = 3)) n))"

text \<open>
  \<^verbatim>\<open>date + timedelta(days=k)\<close>: the \<^verbatim>\<open>timedelta\<close> constructor refuses more than
  999999999 days, and the sum must be an ordinal of the years 1 to 9999; both failures
  are an \<^verbatim>\<open>OverflowError\<close>.
\<close>

definition add_days :: "date \<Rightarrow> int \<Rightarrow> error + date" where
  "add_days d k =
     (if \<bar>k\<bar> > 999999999 then Inl OverflowError
      else let o' = d + k in
        if 0 < o' \<and> o' \<le> MAXORDINAL then Inr o' else Inl OverflowError)"

text \<open>
  \<^verbatim>\<open>date + relativedelta(years=ys, months=ms)\<close> of \<^verbatim>\<open>dateutil\<close>. The constructor
  normalises the months into \<open>-11..11\<close>, carrying into the years; the addition moves the
  year and month, clamps the day to the length of the new month and builds the date with
  \<^verbatim>\<open>date.replace\<close>, which raises \<^verbatim>\<open>ValueError\<close> outside the years 1 to 9999.
\<close>

definition relativedelta_fix :: "int \<Rightarrow> int \<Rightarrow> int \<times> int" where
  "relativedelta_fix ys ms =
     (if \<bar>ms\<bar> > 11
      then let s = (if ms < 0 then - 1 else 1)
           in (ys + ((ms * s) div 12) * s, ((ms * s) mod 12) * s)
      else (ys, ms))"

definition add_relativedelta :: "date \<Rightarrow> int \<Rightarrow> int \<Rightarrow> error + date" where
  "add_relativedelta d ys ms =
     (case relativedelta_fix ys ms of (years, months) \<Rightarrow>
      case ord2ymd d of (y, m, dd) \<Rightarrow>
        let year = y + years;
            month = m + months;
            year' = (if months \<noteq> 0 \<and> month > 12 then year + 1
                     else if months \<noteq> 0 \<and> month < 1 then year - 1 else year);
            month' = (if months \<noteq> 0 \<and> month > 12 then month - 12
                      else if months \<noteq> 0 \<and> month < 1 then month + 12 else month);
            day = min (days_in_month year' month') dd
        in if year' < MINYEAR \<or> MAXYEAR < year' then Inl ValueError
           else Inr (ymd2ord year' month' day))"

section \<open>Bucket definition generator\<close>

text \<open>A row of \<^verbatim>\<open>TimeBuckets\<close>: the fields the generator reads.\<close>

record time_bucket =
  serial_number :: int
  frequency :: int
  multiplier :: string

text \<open>One pass of the loop body of \<^verbatim>\<open>_build_bucket_ranges\<close>: the end date of a bucket.\<close>

definition bucket_end :: "date \<Rightarrow> time_bucket \<Rightarrow> error + date" where
  "bucket_end start tb =
     (if multiplier tb = ''Days'' then add_days start (frequency tb)
      else if multiplier tb = ''Months'' then add_relativedelta start 0 (frequency tb)
      else if multiplier tb = ''Years'' then add_relativedelta start (frequency tb) 0
      else Inl ValueError)"

text \<open>
  \<^verbatim>\<open>_build_bucket_ranges(anchor_date, tb_rows)\<close>: the loop over the rows, threading
  \<open>start\<close>. The next start is computed after every bucket, the last one included.
\<close>

fun build_bucket_ranges :: "date \<Rightarrow> time_bucket list \<Rightarrow> error + (date \<times> date) list" where
  "build_bucket_ranges start [] = Inr []"
| "build_bucket_ranges start (tb # tbs) =
     (case bucket_end start tb of
        Inl e \<Rightarrow> Inl e
      | Inr end' \<Rightarrow>
          (case add_days end' 1 of
             Inl e \<Rightarrow> Inl e
           | Inr start' \<Rightarrow>
               (case build_bucket_ranges start' tbs of
                  Inl e \<Rightarrow> Inl e
                | Inr ranges \<Rightarrow> Inr ((start, end') # ranges))))"

definition tb :: "int \<Rightarrow> int \<Rightarrow> string \<Rightarrow> time_bucket" where
  "tb n f u = \<lparr>serial_number = n, frequency = f, multiplier = u\<rparr>"

section \<open>Decimal amounts\<close>

text \<open>
  A finite \<^verbatim>\<open>Decimal\<close> (and a PostgreSQL \<^verbatim>\<open>numeric\<close>) is modelled by the rational
  it denotes. \<open>quantize\<close> is the value of \<^verbatim>\<open>x.quantize(Decimal("0.01"), ROUND_HALF_UP)\<close>:
  the nearest multiple of 0.01, a tie going away from zero.
\<close>

definition quantize :: "rat \<Rightarrow> rat" where
  "quantize x =
     (if x < 0 then - (of_int \<lfloor>- x * 100 + 1 / 2\<rfloor> / 100)
      else of_int \<lfloor>x * 100 + 1 / 2\<rfloor> / 100)"

text \<open>\<^verbatim>\<open>COALESCE(col, 0)\<close>, also \<^verbatim>\<open>val or 0\<close>.\<close>

definition coalesce0 :: "rat option \<Rightarrow> rat" where
  "coalesce0 v = (case v of None \<Rightarrow> 0 | Some x \<Rightarrow> x)"

text \<open>
  The code runs under the default \<^verbatim>\<open>decimal\<close> context: 28 significant digits,
  \<^verbatim>\<open>ROUND_HALF_EVEN\<close>. \<^verbatim>\<open>quantize\<close> raises \<^verbatim>\<open>InvalidOperation\<close> when the coefficient
  of its result would have more than 28 digits, that is when the result reaches
  \<open>10\<^sup>2\<^sup>6\<close> in absolute value; \<open>None\<close> is that exception.
\<close>

definition quantize_checked :: "rat \<Rightarrow> rat option" where
  "quantize_checked x =
     (if \<bar>quantize x\<bar> \<ge> 100000000000000000000000000 then None else Some (quantize x))"

text \<open>
  \<^verbatim>\<open>+\<close> and \<^verbatim>\<open>-\<close> never raise here, they round the exact result to the precision of
  the context. In the modelled code one operand of every sum and difference is a
  quantized amount, of exponent \<open>-2\<close>, so the exact result is taken at exponent \<open>-2\<close>:
  its coefficient is \<open>\<bar>x\<bar> * 100\<close>, and it is rounded, half to even, to its 28 leading
  digits when it has more.
\<close>

fun ndigits :: "nat \<Rightarrow> nat" where
  "ndigits n = (if n < 10 then 1 else Suc (ndigits (n div 10)))"

definition round_half_even :: "rat \<Rightarrow> int" where
  "round_half_even x =
     (let f = \<lfloor>x\<rfloor>; r = x - of_int f
      in if r < 1 / 2 then f
         else if r > 1 / 2 then f + 1
         else if even f then f else f + 1)"

definition ctx_round :: "rat \<Rightarrow> rat" where
  "ctx_round x =
     (let coefficient = \<bar>x\<bar> * 100
      in if coefficient < 10000000000000000000000000000 then x
         else let unit = 10 ^ (ndigits (nat \<lfloor>coefficient\<rfloor>) - 28)
              in sgn x * of_int (round_half_even (coefficient / unit)) * unit / 100)"

definition dec_add :: "rat \<Rightarrow> rat \<Rightarrow> rat" where
  "dec_add x y = ctx_round (x + y)"

definition dec_sub :: "rat \<Rightarrow> rat \<Rightarrow> rat" where
  "dec_sub x y = ctx_round (x - y)"

text \<open>\<^verbatim>\<open>sum(values)\<close>: the additions from the left, starting at 0.\<close>

definition py_sum :: "rat list \<Rightarrow> rat" where
  "py_sum values = foldl dec_add 0 values"


section \<open>SQL pattern matching\<close>

text \<open>
  \<^verbatim>\<open>text LIKE pattern\<close>: \<open>%\<close> matches any run of characters, \<open>_\<close> matches any single
  character, every other character matches itself. (None of the patterns of the modelled
  code contains an escape character.)
\<close>

fun like_match :: "string \<Rightarrow> string \<Rightarrow> bool" where
  "like_match [] [] = True"
| "like_match [] (c # cs) = False"
| "like_match (p # ps) [] = (p = CHR ''%'' \<and> like_match ps [])"
| "like_match (p # ps) (c # cs) =
     (if p = CHR ''%'' then like_match ps (c # cs) \<or> like_match (p # ps) cs
      else (p = CHR ''_'' \<or> p = c) \<and> like_match ps cs)"

text \<open>Lower and upper case of the ASCII letters, for \<^verbatim>\<open>ILIKE\<close>, \<^verbatim>\<open>LOWER\<close> and \<^verbatim>\<open>str.upper\<close>.\<close>

definition lower_char :: "char \<Rightarrow> char" where
  "lower_char c =
     (if (65::nat) \<le> of_char c \<and> of_char c \<le> (90::nat)
      then char_of (of_char c + (32::nat)) else c)"


definition lower :: "string \<Rightarrow> string" where "lower s = map lower_char s"

definition ilike_match :: "string \<Rightarrow> string \<Rightarrow> bool" where
  "ilike_match pattern s = like_match (lower pattern) (lower s)"

definition is_digit :: "char \<Rightarrow> bool" where
  "is_digit c \<longleftrightarrow> (48::nat) \<le> of_char c \<and> of_char c \<le> (57::nat)"

section \<open>Report relations\<close>

text \<open>
  A row of a per-snapshot report relation (a clone of \<^verbatim>\<open>Report_Contractual_Base\<close>): the
  key columns the modelled code reads, and the numeric columns by name (the dynamic
  bucket columns and \<^verbatim>\<open>n_adjusted_cash_flow_amount\<close>), \<open>None\<close> being SQL \<^verbatim>\<open>NULL\<close>.
  A relation is its ordered column names and its rows.
\<close>

record report_row =
  rc_id :: int
  rc_fic_mis_date :: date
  rc_process_name :: string
  rc_v_prod_code :: string
  rc_v_ccy_code :: string
  rc_v_prod_type :: string
  rc_num :: "string \<Rightarrow> rat option"

record report_table =
  rt_columns :: "string list"
  rt_rows :: "report_row list"

record product_balance =
  pb_fic_mis_date :: date
  pb_v_prod_code :: string
  pb_v_ccy_code :: string
  pb_n_balance :: rat

section \<open>Balance reconciler\<close>

text \<open>
  \<^verbatim>\<open>_bucket_columns(cur, table)\<close> of \<^verbatim>\<open>repo_alignment.py\<close>: the catalogue query over the
  column names, in ordinal position. The fourth alternative, \<^verbatim>\<open>ILIKE 'b[0-9]%'\<close>, has
  no character classes in \<^verbatim>\<open>LIKE\<close> syntax and matches the bracket literally.
\<close>

definition is_bucket_column :: "string \<Rightarrow> bool" where
  "is_bucket_column c \<longleftrightarrow>
     (ilike_match ''bucket_%'' c \<and> c \<noteq> ''cashflow_by_bucket_id'')
     \<or> ilike_match ''c_%'' c
     \<or> (c \<noteq> [] \<and> (hd c = CHR ''B'' \<or> hd c = CHR ''b'') \<and> tl c \<noteq> [] \<and> list_all is_digit (tl c))
     \<or> ilike_match ''b[0-9]%'' c"

definition bucket_columns :: "report_table \<Rightarrow> string list" where
  "bucket_columns t = filter is_bucket_column (rt_columns t)"

text \<open>
  Python's \<^verbatim>\<open>max(items, key=key)\<close>: a later item replaces the best one only when its key
  is strictly greater, so the first maximal item is returned.
\<close>

fun max_by :: "('a \<Rightarrow> rat) \<Rightarrow> 'a \<Rightarrow> 'a list \<Rightarrow> 'a" where
  "max_by key best [] = best"
| "max_by key best (x # xs) = max_by key (if key x > key best then x else best) xs"

definition py_max :: "('a \<Rightarrow> rat) \<Rightarrow> 'a list \<Rightarrow> 'a option" where
  "py_max key xs = (case xs of [] \<Rightarrow> None | x # xs' \<Rightarrow> Some (max_by key x xs'))"

text \<open>The test of Strategy 1: \<^verbatim>\<open>(difference > 0 and bucket_val >= 0) or (difference < 0 and bucket_val < 0)\<close>.\<close>

definition same_sign :: "rat \<Rightarrow> rat \<Rightarrow> bool" where
  "same_sign difference bucket_val \<longleftrightarrow>
     (difference > 0 \<and> bucket_val \<ge> 0) \<or> (difference < 0 \<and> bucket_val < 0)"

definition same_sign_candidates :: "rat \<Rightarrow> rat list \<Rightarrow> (nat \<times> rat) list" where
  "same_sign_candidates difference bucket_values =
     map (\<lambda>(i, bucket_val). (i, \<bar>bucket_val\<bar>))
       (filter (\<lambda>(i, bucket_val). same_sign difference bucket_val)
          (enumerate 0 bucket_values))"

text \<open>
  The choice of the bucket to adjust: \<open>None\<close> when there are no bucket values, else the
  largest same-sign candidate and, without candidates, the largest bucket overall.
\<close>

definition best_bucket_idx :: "rat \<Rightarrow> rat list \<Rightarrow> nat option" where
  "best_bucket_idx difference bucket_values =
     (if bucket_values = [] then None
      else if same_sign_candidates difference bucket_values \<noteq> []
      then map_option fst (py_max snd (same_sign_candidates difference bucket_values))
      else py_max (\<lambda>i. \<bar>bucket_values ! i\<bar>) [0..<length bucket_values])"

text \<open>
  What the loop body does with one fetched row, up to the \<^verbatim>\<open>UPDATE\<close>. An
  \<^verbatim>\<open>InvalidOperation\<close> raised by a \<^verbatim>\<open>quantize\<close> is caught by no inner handler (they
  catch \<^verbatim>\<open>IndexError\<close> and \<^verbatim>\<open>ValueError\<close>) and ends in the handler of the row, which
  counts an error. The bucket values and the sum computed by the query are read before
  the target balance is tested.
\<close>

datatype row_action =
    MissingBalance
  | AlreadyBalanced
  | RowError
  | Adjust string rat

text \<open>The sum of the bucket columns of a row as the queries compute it, exact in SQL.\<close>

definition db_bucket_sum :: "string list \<Rightarrow> report_row \<Rightarrow> rat" where
  "db_bucket_sum bucket_cols r = sum_list (map (\<lambda>col. coalesce0 (rc_num r col)) bucket_cols)"

definition row_action :: "string list \<Rightarrow> report_row \<Rightarrow> rat option \<Rightarrow> row_action" where
  "row_action bucket_cols rc target =
     (case those (map (\<lambda>col. quantize_checked (coalesce0 (rc_num rc col))) bucket_cols) of
        None \<Rightarrow> RowError
      | Some bucket_values \<Rightarrow>
     (case quantize_checked (db_bucket_sum bucket_cols rc) of
        None \<Rightarrow> RowError
      | Some db_calculated_sum \<Rightarrow>
     (let manual_sum = py_sum bucket_values
      in case target of
           None \<Rightarrow> MissingBalance
         | Some n_balance \<Rightarrow>
     (case quantize_checked n_balance of
        None \<Rightarrow> RowError
      | Some target_balance \<Rightarrow>
     (let difference = dec_sub target_balance manual_sum
      in if difference = 0 then AlreadyBalanced
         else case best_bucket_idx difference bucket_values of
                None \<Rightarrow> RowError
              | Some best \<Rightarrow>
                  if best \<ge> length bucket_cols then RowError
                  else case quantize_checked (dec_add (bucket_values ! best) difference) of
                         None \<Rightarrow> RowError
                       | Some new_value \<Rightarrow> Adjust (bucket_cols ! best) new_value)))))"






text \<open>The bucket columns the loop works on: the catalogue's, without \<^verbatim>\<open>cashflow_by_bucket_id\<close>.\<close>

definition adjustable_columns :: "report_table \<Rightarrow> string list" where
  "adjustable_columns t =
     filter (\<lambda>col. col \<noteq> ''cashflow_by_bucket_id'') (bucket_columns t)"



section \<open>Behavioural respreader\<close>

text \<open>
  A Python \<^verbatim>\<open>dict\<close> is an association list with distinct keys in insertion order;
  \<^verbatim>\<open>d[k] = v\<close> is \<open>AList.update k v d\<close> (an existing key keeps its place and takes the
  new value, a new key goes to the end) and \<^verbatim>\<open>d.get(k)\<close> is \<open>map_of d k\<close>.
\<close>

definition dict_of :: "('k \<times> 'v) list \<Rightarrow> ('k \<times> 'v) list" where
  "dict_of kvs = foldl (\<lambda>d (k, v). AList.update k v d) [] kvs"

text \<open>
  A \<^verbatim>\<open>BehavioralPattern\<close> with its \<^verbatim>\<open>splits\<close>, each a bucket number and a percentage.
\<close>

record behavioral_pattern =
  bp_v_prod_type :: string
  bp_splits :: "(int \<times> rat) list"

text \<open>
  The patterns dictionary \<^verbatim>\<open>{prod_type: {bucket_number: percentage / 100}}\<close>; a pattern
  without splits is left out.
\<close>

definition pattern_splits :: "behavioral_pattern \<Rightarrow> (int \<times> rat) list" where
  "pattern_splits pat = dict_of (map (\<lambda>(bucket_number, percentage).
                                      (bucket_number, percentage / 100)) (bp_splits pat))"

definition load_patterns :: "behavioral_pattern list \<Rightarrow> (string \<times> (int \<times> rat) list) list" where
  "load_patterns pats =
     foldl (\<lambda>patterns pat.
              if pattern_splits pat \<noteq> []
              then AList.update (bp_v_prod_type pat) (pattern_splits pat) patterns
              else patterns) [] pats"

text \<open>\<^verbatim>\<open>s.split("_")\<close>: the pieces between the separators, at least one piece.\<close>

fun split_on :: "char \<Rightarrow> string \<Rightarrow> string list" where
  "split_on sep [] = [[]]"
| "split_on sep (x # xs) =
     (if x = sep then [] # split_on sep xs
      else (case split_on sep xs of
              [] \<Rightarrow> [[x]]
            | piece # pieces \<Rightarrow> (x # piece) # pieces))"

text \<open>
  \<^verbatim>\<open>int(s)\<close> on ASCII text: white space around, an optional sign, then one or more
  digits; anything else is a \<^verbatim>\<open>ValueError\<close>, here \<open>None\<close>. (Digit-group underscores
  cannot occur in a piece of \<^verbatim>\<open>split("_")\<close>.)
\<close>

definition is_space :: "char \<Rightarrow> bool" where
  "is_space c \<longleftrightarrow> ((9::nat) \<le> of_char c \<and> of_char c \<le> (13::nat))
                    \<or> ((28::nat) \<le> of_char c \<and> of_char c \<le> (32::nat))"

definition strip :: "string \<Rightarrow> string" where
  "strip s = rev (dropWhile is_space (rev (dropWhile is_space s)))"

definition digits_value :: "string \<Rightarrow> int option" where
  "digits_value ds =
     (if ds \<noteq> [] \<and> list_all is_digit ds
      then Some (foldl (\<lambda>acc c. 10 * acc + (int (of_char c) - 48)) 0 ds)
      else None)"

definition py_int :: "string \<Rightarrow> int option" where
  "py_int s =
     (case strip s of
        [] \<Rightarrow> None
      | c # cs \<Rightarrow>
          if c = CHR ''-'' then map_option uminus (digits_value cs)
          else if c = CHR ''+'' then digits_value cs
          else digits_value (c # cs))"

text \<open>
  The bucket number of a column name, \<^verbatim>\<open>int(parts[1].lstrip("0") or "0")\<close>: an
  \<^verbatim>\<open>IndexError\<close> (not caught) when the name has no underscore, \<open>Inr None\<close> for the
  \<^verbatim>\<open>ValueError\<close> that makes the loop skip the column.
\<close>

definition bucket_no_of :: "string \<Rightarrow> error + int option" where
  "bucket_no_of col =
     (case split_on CHR ''_'' col of
        p0 # p1 # ps \<Rightarrow>
          Inr (py_int (if dropWhile (\<lambda>c. c = CHR ''0'') p1 = [] then ''0''
                       else dropWhile (\<lambda>c. c = CHR ''0'') p1))
      | _ \<Rightarrow> Inl IndexError)"

fun build_bucket_map :: "string list \<Rightarrow> (int \<times> string) list \<Rightarrow> error + (int \<times> string) list" where
  "build_bucket_map [] bucket_map = Inr bucket_map"
| "build_bucket_map (col # cols) bucket_map =
     (case bucket_no_of col of
        Inl e \<Rightarrow> Inl e
      | Inr None \<Rightarrow> build_bucket_map cols bucket_map
      | Inr (Some bucket_no) \<Rightarrow> build_bucket_map cols (AList.update bucket_no col bucket_map))"

text \<open>
  The spreading loops: for every mapped source column with a non-zero amount, every
  split whose destination number has a column receives \<open>amt * pct\<close>.
\<close>

definition spread_splits ::
  "(int \<times> string) list \<Rightarrow> rat \<Rightarrow> (int \<times> rat) list \<Rightarrow> (string \<Rightarrow> rat) \<Rightarrow> (string \<Rightarrow> rat)" where
  "spread_splits bucket_map amt splits new_bucket_vals =
     foldl (\<lambda>vals (dst_bucket_no, pct).
              case map_of bucket_map dst_bucket_no of
                None \<Rightarrow> vals
              | Some dst_col \<Rightarrow> vals(dst_col := vals dst_col + amt * pct))
       new_bucket_vals splits"

definition spread_row ::
  "(int \<times> string) list \<Rightarrow> (int \<times> rat) list \<Rightarrow> report_row \<Rightarrow> (string \<Rightarrow> rat)" where
  "spread_row bucket_map splits row =
     foldl (\<lambda>vals (src_bucket_no, col_name).
              let amt = coalesce0 (rc_num row col_name)
              in if amt = 0 then vals else spread_splits bucket_map amt splits vals)
       (\<lambda>col. 0) bucket_map"

text \<open>The row inserted for a source row: bucket columns replaced, the rest copied.\<close>

definition respread_row ::
  "string list \<Rightarrow> (int \<times> string) list \<Rightarrow> (int \<times> rat) list \<Rightarrow> report_row \<Rightarrow> report_row" where
  "respread_row bucket_cols bucket_map splits row =
     row\<lparr>rc_num := (\<lambda>col. if col \<in> set bucket_cols
                            then Some (quantize (spread_row bucket_map splits row col))
                            else rc_num row col)\<rparr>"

text \<open>
  \<^verbatim>\<open>load_report_behavioural\<close> on the pattern table and the contractual snapshot relation.
  The destination is a fresh clone of the common template, taken to have the columns of
  the source; its serial ids start at \<open>seq\<close>. The result is the destination relation and
  the number of rows inserted.
\<close>

definition like_bucket_columns :: "report_table \<Rightarrow> string list" where
  "like_bucket_columns t = filter (like_match ''bucket_%'') (rt_columns t)"

definition load_report_behavioural ::
  "behavioral_pattern list \<Rightarrow> report_table \<Rightarrow> int \<Rightarrow> error + (report_table \<times> nat)" where
  "load_report_behavioural pats src seq =
     (let patterns = load_patterns pats
      in if patterns = [] then Inr (\<lparr>rt_columns = rt_columns src, rt_rows = []\<rparr>, 0)
         else
           let bucket_cols = like_bucket_columns src
           in case build_bucket_map bucket_cols [] of
                Inl e \<Rightarrow> Inl e
              | Inr bucket_map \<Rightarrow>
                  let selected = filter (\<lambda>row. rc_v_prod_type row \<in> fst ` set patterns)
                                   (rt_rows src);
                      spread = concat (map (\<lambda>row.
                                 case map_of patterns (rc_v_prod_type row) of
                                   None \<Rightarrow> []
                                 | Some splits \<Rightarrow>
                                     if splits = [] then []
                                     else [respread_row bucket_cols bucket_map splits row])
                               selected);
                      inserted = map (\<lambda>(i, row). row\<lparr>rc_id := seq + int i\<rparr>)
                                   (enumerate 0 spread)
                  in Inr (\<lparr>rt_columns = rt_columns src, rt_rows = inserted\<rparr>,
                          length inserted))"

section \<open>Currency consolidator\<close>










section \<open>Pipeline runner\<close>

text \<open>
  A row of \<^verbatim>\<open>ExecutionHistory\<close>. The table is unique on snapshot date, run number and
  process name. Times are readings of a clock that the state carries.
\<close>

record execution =
  eh_id :: nat
  eh_fic_mis_date :: date
  eh_run_number :: int
  eh_process_name :: string
  eh_status :: string
  eh_start_time :: nat
  eh_end_time :: "nat option"
  eh_execution_time :: "rat option"
  eh_error_message :: "string option"

record run_state =
  history :: "execution list"
  clock :: nat
  next_id :: nat

definition TOTAL_PIPELINE_STEPS :: "string list" where
  "TOTAL_PIPELINE_STEPS =
     [''Process First Day Cashflows'',
      ''Process Credit Line Cashflows'',
      ''Process Loan Cashflows'',
      ''Balance Cashflows to Target'',
      ''Process Overdraft Cashflows'',
      ''Process Investment Cashflows'',
      ''Process First Day Cashflows (Re-run)'',
      ''Calculate Time Buckets and Spread'',
      ''Aggregate by Product Code'',
      ''Create Report Contractual Table'',
      ''Load Contractual Report'',
      ''Align Buckets to Balance'',
      ''Load Contractual Consolidated Report'',
      ''Load Behavioural Report'',
      ''Load Rate-Sensitive Report'']"

text \<open>The steps with their dependencies; a step's function is named by the step.\<close>

definition all_steps :: "(string \<times> string list) list" where
  "all_steps =
     [(''Process First Day Cashflows'', []),
      (''Process Credit Line Cashflows'', [''Process First Day Cashflows'']),
      (''Process Loan Cashflows'', [''Process Credit Line Cashflows'']),
      (''Balance Cashflows to Target'', [''Process Loan Cashflows'']),
      (''Process Overdraft Cashflows'', [''Balance Cashflows to Target'']),
      (''Process Investment Cashflows'', [''Process Overdraft Cashflows'']),
      (''Process First Day Cashflows (Re-run)'', [''Process Investment Cashflows'']),
      (''Calculate Time Buckets and Spread'', [''Process First Day Cashflows (Re-run)'']),
      (''Aggregate by Product Code'', [''Calculate Time Buckets and Spread'']),
      (''Create Report Contractual Table'', [''Aggregate by Product Code'']),
      (''Load Contractual Report'', [''Create Report Contractual Table'']),
      (''Align Buckets to Balance'', [''Load Contractual Report'']),
      (''Load Contractual Consolidated Report'', [''Align Buckets to Balance'']),
      (''Load Behavioural Report'', [''Load Contractual Consolidated Report'']),
      (''Load Rate-Sensitive Report'', [''Load Behavioural Report''])]"

text \<open>
  \<^verbatim>\<open>Pipeline._execute_step\<close>: up to \<open>retry_count\<close> attempts of the step function. An
  attempt is \<open>None\<close> when the function returns and \<open>Some msg\<close> when it raises; the last
  failure makes the result \<^verbatim>\<open>Failed\<close>. With no attempt at all the method returns
  nothing, here \<open>None\<close>.
\<close>

record step_result =
  sr_status :: string
  sr_execution_time :: rat
  sr_error_message :: "string option"

fun execute_attempts ::
  "(nat \<Rightarrow> string option) \<Rightarrow> rat \<Rightarrow> nat \<Rightarrow> nat \<Rightarrow> step_result option" where
  "execute_attempts run elapsed 0 attempt = None"
| "execute_attempts run elapsed (Suc left) attempt =
     (case run attempt of
        None \<Rightarrow> Some \<lparr>sr_status = ''Success'', sr_execution_time = elapsed,
                       sr_error_message = None\<rparr>
      | Some msg \<Rightarrow>
          if left = 0
          then Some \<lparr>sr_status = ''Failed'', sr_execution_time = elapsed,
                     sr_error_message = Some (take 4000 msg)\<rparr>
          else execute_attempts run elapsed left (Suc attempt))"

definition retry_count :: nat where "retry_count = 3"

definition execute_step ::
  "(string \<Rightarrow> nat \<Rightarrow> string option) \<Rightarrow> (string \<Rightarrow> rat) \<Rightarrow> string \<Rightarrow> step_result option" where
  "execute_step run elapsed name = execute_attempts (run name) (elapsed name) retry_count 0"

text \<open>Queries on the history of one run.\<close>

definition of_run :: "date \<Rightarrow> int \<Rightarrow> execution \<Rightarrow> bool" where
  "of_run fic_mis_date run_number e \<longleftrightarrow>
     eh_fic_mis_date e = fic_mis_date \<and> eh_run_number e = run_number"

definition first_execution :: "date \<Rightarrow> int \<Rightarrow> string \<Rightarrow> execution list \<Rightarrow> execution option" where
  "first_execution fic_mis_date run_number name h =
     find (\<lambda>e. of_run fic_mis_date run_number e \<and> eh_process_name e = name)
       (sort_key eh_start_time h)"

definition update_where ::
  "(execution \<Rightarrow> bool) \<Rightarrow> (execution \<Rightarrow> execution) \<Rightarrow> execution list \<Rightarrow> execution list" where
  "update_where P f h = map (\<lambda>e. if P e then f e else e) h"

definition create_execution :: "date \<Rightarrow> int \<Rightarrow> string \<Rightarrow> string \<Rightarrow> run_state \<Rightarrow> run_state" where
  "create_execution fic_mis_date run_number name status s =
     s\<lparr>history := history s @
          [\<lparr>eh_id = next_id s, eh_fic_mis_date = fic_mis_date, eh_run_number = run_number,
            eh_process_name = name, eh_status = status, eh_start_time = clock s,
            eh_end_time = None, eh_execution_time = None, eh_error_message = None\<rparr>],
       clock := Suc (clock s), next_id := Suc (next_id s)\<rparr>"

text \<open>
  The status map of the run, \<^verbatim>\<open>{exe.process_name: exe.status}\<close> over the run's rows in
  order of start time, and the steps kept for a resumption from \<open>continue_from_step\<close>.
\<close>

definition execution_status_map :: "date \<Rightarrow> int \<Rightarrow> execution list \<Rightarrow> (string \<times> string) list" where
  "execution_status_map fic_mis_date run_number h =
     dict_of (map (\<lambda>e. (eh_process_name e, eh_status e))
                (sort_key eh_start_time (filter (of_run fic_mis_date run_number) h)))"

definition index_of :: "'a \<Rightarrow> 'a list \<Rightarrow> nat option" where
  "index_of x xs = (if x \<in> set xs then Some (length (takeWhile (\<lambda>y. y \<noteq> x) xs)) else None)"

definition remaining_steps ::
  "(string \<times> string) list \<Rightarrow> string \<Rightarrow> nat \<Rightarrow> (string \<times> string list) list" where
  "remaining_steps status_map continue_from_step continue_idx =
     filter (\<lambda>(step_name, dependencies).
               (case map_of status_map step_name of
                  None \<Rightarrow> True
                | Some status \<Rightarrow> status = [] \<or> status = ''Failed'' \<or> status = ''Stopped'')
               \<or> step_name = continue_from_step)
       (drop continue_idx all_steps)"

text \<open>The loop that makes every step of the pipeline exist in the history of the run.\<close>

definition ensure_step ::
  "date \<Rightarrow> int \<Rightarrow> (string \<times> string) list \<Rightarrow> string list \<Rightarrow> string \<Rightarrow> run_state \<Rightarrow> run_state" where
  "ensure_step fic_mis_date run_number status_map remaining step_name s =
     (if map_of status_map step_name = None
      then create_execution fic_mis_date run_number step_name
             (if step_name \<in> set remaining then ''Pending'' else ''Skipped'') s
      else if step_name \<in> set remaining
      then s\<lparr>history := update_where
                 (\<lambda>e. of_run fic_mis_date run_number e \<and> eh_process_name e = step_name
                       \<and> (eh_status e = ''Failed'' \<or> eh_status e = ''Stopped''))
                 (\<lambda>e. e\<lparr>eh_status := ''Pending'', eh_error_message := None,
                          eh_end_time := None, eh_execution_time := None\<rparr>)
                 (history s)\<rparr>
      else s)"

text \<open>
  The parts of the execution loop. A step that has a row in the history of the run is
  set to \<^verbatim>\<open>Running\<close> through the object read (\<^verbatim>\<open>save()\<close> writes the row of its
  primary key); a step without one gets a new \<^verbatim>\<open>Running\<close> row. The result is the key
  of the row that tracks the step, and the state.
\<close>

definition start_execution ::
  "date \<Rightarrow> int \<Rightarrow> string \<Rightarrow> execution option \<Rightarrow> run_state \<Rightarrow> nat \<times> run_state" where
  "start_execution fic_mis_date run_number name existing_execution s =
     (case existing_execution of
        Some e \<Rightarrow>
          (eh_id e,
           s\<lparr>history := update_where (\<lambda>x. eh_id x = eh_id e)
                 (\<lambda>x. e\<lparr>eh_status := ''Running'', eh_start_time := clock s,
                          eh_end_time := None, eh_error_message := None,
                          eh_execution_time := None\<rparr>)
                 (history s),
             clock := Suc (clock s)\<rparr>)
      | None \<Rightarrow>
          (next_id s, create_execution fic_mis_date run_number name ''Running'' s))"

text \<open>\<^verbatim>\<open>ExecutionService.update_execution_status(history, result)\<close>.\<close>

definition update_execution_status :: "nat \<Rightarrow> step_result \<Rightarrow> run_state \<Rightarrow> run_state" where
  "update_execution_status hist result s =
     s\<lparr>history := update_where (\<lambda>x. eh_id x = hist)
           (\<lambda>x. x\<lparr>eh_status := sr_status result,
                    eh_end_time := Some (clock s),
                    eh_execution_time := Some (sr_execution_time result),
                    eh_error_message :=
                      (case sr_error_message result of
                         None \<Rightarrow> eh_error_message x
                       | Some msg \<Rightarrow> Some msg)\<rparr>)
           (history s),
       clock := Suc (clock s)\<rparr>"

text \<open>The update that writes a message on the rows of the run still \<^verbatim>\<open>Pending\<close>.\<close>

definition note_pending :: "date \<Rightarrow> int \<Rightarrow> string \<Rightarrow> run_state \<Rightarrow> run_state" where
  "note_pending fic_mis_date run_number msg s =
     s\<lparr>history := update_where
           (\<lambda>e. of_run fic_mis_date run_number e \<and> eh_status e = ''Pending'')
           (\<lambda>e. e\<lparr>eh_status := ''Pending'', eh_error_message := Some msg\<rparr>)
           (history s)\<rparr>"

text \<open>
  The execution loop over the steps of the pipeline. It returns the state, the names of
  the steps whose function was executed, in order, and whether an exception ended it
  (the handler then writes the exception's text, here a fixed one, on the pending rows).
\<close>

fun run_steps ::
  "(string \<Rightarrow> nat \<Rightarrow> string option) \<Rightarrow> (string \<Rightarrow> rat) \<Rightarrow> date \<Rightarrow> int \<Rightarrow> bool
     \<Rightarrow> string list \<Rightarrow> run_state \<Rightarrow> run_state \<times> string list \<times> bool" where
  "run_steps run elapsed fic_mis_date run_number continuing [] s = (s, [], False)"
| "run_steps run elapsed fic_mis_date run_number continuing (name # names) s =
     (let existing_execution =
            (if continuing then first_execution fic_mis_date run_number name (history s)
             else None)
      in if (case existing_execution of None \<Rightarrow> False | Some e \<Rightarrow> eh_status e = ''Success'')
         then run_steps run elapsed fic_mis_date run_number continuing names s
         else
           case start_execution fic_mis_date run_number name existing_execution s of
             (hist, s1) \<Rightarrow>
               (case execute_step run elapsed name of
                  None \<Rightarrow> (note_pending fic_mis_date run_number ''exception'' s1, [name], True)
                | Some result \<Rightarrow>
                    let s2 = update_execution_status hist result s1
                    in if sr_status result = ''Failed''
                       then (note_pending fic_mis_date run_number ''Previous step failed'' s2,
                             [name], False)
                       else (case run_steps run elapsed fic_mis_date run_number continuing
                                    names s2 of
                               (s3, executed, raised) \<Rightarrow> (s3, name # executed, raised))))"

text \<open>
  \<^verbatim>\<open>execute_functions(request, fic_mis_date, force_new_execution=..., specified_run_number=...,
  continue_from_step=...)\<close>. An empty \<open>continue_from_step\<close> stands for \<^verbatim>\<open>None\<close> (both are
  false in the test that selects the resumption), and \<open>specified_run_number\<close> is an option.
  A resumption from a name that is not a pipeline step is answered with an error and
  changes nothing.
\<close>

definition get_next_run_number :: "date \<Rightarrow> int option \<Rightarrow> execution list \<Rightarrow> int" where
  "get_next_run_number fic_mis_date specified h =
     (case specified of
        Some run_number \<Rightarrow> run_number
      | None \<Rightarrow>
          (case filter (\<lambda>e. eh_fic_mis_date e = fic_mis_date) h of
             [] \<Rightarrow> 0
           | e # es \<Rightarrow> Max (set (map eh_run_number (e # es)))) + 1)"

definition execute_functions ::
  "(string \<Rightarrow> nat \<Rightarrow> string option) \<Rightarrow> (string \<Rightarrow> rat) \<Rightarrow> date \<Rightarrow> bool \<Rightarrow> int option
     \<Rightarrow> string \<Rightarrow> run_state \<Rightarrow> error + (run_state \<times> string list \<times> bool)" where
  "execute_functions run elapsed fic_mis_date force_new_execution specified_run_number
     continue_from_step s =
     (if continue_from_step \<noteq> []
      then
        (case specified_run_number of
           None \<Rightarrow> Inl TypeError
         | Some run_number \<Rightarrow>
             let status_map = execution_status_map fic_mis_date run_number (history s)
             in case index_of continue_from_step TOTAL_PIPELINE_STEPS of
                  None \<Rightarrow> Inl ValueError
                | Some continue_idx \<Rightarrow>
                    let remaining = map fst (remaining_steps status_map continue_from_step
                                               continue_idx);
                        s1 = foldl (\<lambda>s step_name.
                                      ensure_step fic_mis_date run_number status_map remaining
                                        step_name s)
                               s TOTAL_PIPELINE_STEPS
                    in Inr (run_steps run elapsed fic_mis_date run_number True remaining s1))
      else
        let run_number = get_next_run_number fic_mis_date specified_run_number (history s);
            s1 = (if force_new_execution
                  then s\<lparr>history := filter (\<lambda>e. \<not> of_run fic_mis_date run_number e) (history s)\<rparr>
                  else s)
        in Inr (run_steps run elapsed fic_mis_date run_number False (map fst all_steps) s1))"

text \<open>
  For the properties of a resumption: \<open>same_step e x\<close> says that \<open>x\<close> is a row of the
  step of \<open>e\<close> in the run of \<open>e\<close>, \<open>kept e h\<close> that \<open>e\<close> itself is the one such row of the
  history \<open>h\<close>, and \<open>well_keyed s\<close> that the primary keys of the history are distinct and
  below the next key of the sequence.
\<close>

definition same_step :: "execution \<Rightarrow> execution \<Rightarrow> bool" where
  "same_step e x \<longleftrightarrow>
     eh_fic_mis_date x = eh_fic_mis_date e \<and> eh_run_number x = eh_run_number e
     \<and> eh_process_name x = eh_process_name e"

definition kept :: "execution \<Rightarrow> execution list \<Rightarrow> bool" where
  "kept e h \<longleftrightarrow> filter (same_step e) h = [e]"

definition well_keyed :: "run_state \<Rightarrow> bool" where
  "well_keyed s \<longleftrightarrow>
     distinct (map eh_id (history s)) \<and> (\<forall>x\<in>set (history s). eh_id x < next_id s)"

section \<open>A worked snapshot\<close>

text \<open>
  The end-to-end scenario of the specification, used to instantiate the theorems below:
  one product row of snapshot 2025-04-30 with 1000 in the second of three buckets, and a
  target balance of 1200 for that product.
\<close>

definition scenario_row :: report_row where
  "scenario_row =
     \<lparr>rc_id = 1, rc_fic_mis_date = 739371, rc_process_name = ''contractual'',
      rc_v_prod_code = ''LN01'', rc_v_ccy_code = ''USD'', rc_v_prod_type = ''LOANS'',
      rc_num = (\<lambda>col. if col = ''bucket_002_20250508_20250608'' then Some 1000
                       else if col = ''bucket_001_20250430_20250507'' then Some 0
                       else if col = ''bucket_003_20250609_20300609'' then Some 0
                       else None)\<rparr>"

definition scenario_table :: report_table where
  "scenario_table =
     \<lparr>rt_columns = [''id'', ''v_prod_code'', ''v_ccy_code'', ''cashflow_by_bucket_id'',
                     ''n_adjusted_cash_flow_amount'',
                     ''bucket_001_20250430_20250507'', ''bucket_002_20250508_20250608'',
                     ''bucket_003_20250609_20300609''],
      rt_rows = [scenario_row]\<rparr>"

definition scenario_balance :: product_balance where
  "scenario_balance =
     \<lparr>pb_fic_mis_date = 739371, pb_v_prod_code = ''LN01'', pb_v_ccy_code = ''USD'',
      pb_n_balance = 1200\<rparr>"

text \<open>
  Two variations of the worked snapshot for the reconciler: the same row with -500 in
  its second bucket, to be reconciled with a target of -300; and the snapshot with a
  second product whose target balance is \<open>10\<^sup>1\<^sup>8\<close>, which the column \<^verbatim>\<open>n_balance\<close>, a
  \<^verbatim>\<open>NUMERIC(40,10)\<close>, can hold and a bucket column cannot.
\<close>

definition negative_row :: report_row where
  "negative_row =
     scenario_row\<lparr>rc_num := (\<lambda>col. if col = ''bucket_002_20250508_20250608'' then Some (- 500)
                                     else if col = ''bucket_001_20250430_20250507'' then Some 0
                                     else if col = ''bucket_003_20250609_20300609'' then Some 0
                                     else None)\<rparr>"









section \<open>The scenario of the specification\<close>

lemmas date_defs =
  bucket_end_def add_days_def add_relativedelta_def relativedelta_fix_def ord2ymd_def
  month_and_day_def ymd2ord_def days_before_year_def days_before_month_def days_in_month_def
  DAYS_IN_MONTH_def DAYS_BEFORE_MONTH_def is_leap_def DI400Y_def DI100Y_def DI4Y_def
  MAXORDINAL_def MINYEAR_def MAXYEAR_def Let_def

text \<open>
  Claim C4, as the specification states it: anchored at 2025-04-30, the definitions
  (7 Days), (1 Months), (5 Years) give the ranges [2025-04-30, 2025-05-07],
  [2025-05-08, 2025-06-07], [2025-06-08, 2030-06-07]. The generator does not: it sets
  \<open>end = start + frequency\<close> without taking a day off, so that the second bucket ends on
  2025-06-08 and the third runs from 2025-06-09 to 2030-06-09.
\<close>

theorem scenario_ranges_counterexample:
  "build_bucket_ranges (ymd2ord 2025 4 30)
     [tb 1 7 ''Days'', tb 2 1 ''Months'', tb 3 5 ''Years'']
   \<noteq> Inr [(ymd2ord 2025 4 30, ymd2ord 2025 5 7),
           (ymd2ord 2025 5 8, ymd2ord 2025 6 7),
           (ymd2ord 2025 6 8, ymd2ord 2030 6 7)]"
  by (simp add: tb_def date_defs)

text \<open>
  Claim C4, amended: for that anchor and those three definitions the generator yields
  exactly [2025-04-30, 2025-05-07], [2025-05-08, 2025-06-08], [2025-06-09, 2030-06-09].
\<close>

theorem scenario_ranges:
  "build_bucket_ranges (ymd2ord 2025 4 30)
     [tb 1 7 ''Days'', tb 2 1 ''Months'', tb 3 5 ''Years'']
   = Inr [(ymd2ord 2025 4 30, ymd2ord 2025 5 7),
          (ymd2ord 2025 5 8, ymd2ord 2025 6 8),
          (ymd2ord 2025 6 9, ymd2ord 2030 6 9)]"
  by (simp add: tb_def date_defs)

section \<open>Properties of the amounts and of the bucket choice\<close>





lemma max_by_mem: "max_by key b xs \<in> set (b # xs)"
  by (induction xs arbitrary: b) (auto split: if_splits)

lemma max_by_ge_best: "key b \<le> key (max_by key b xs)"
proof (induction xs arbitrary: b)
  case Nil
  then show ?case by simp
next
  case (Cons a xs)
  show ?case
  proof (cases "key a > key b")
    case True
    have "key a \<le> key (max_by key a xs)" by (rule Cons.IH)
    with True show ?thesis by simp
  next
    case False
    then show ?thesis using Cons.IH[of b] by simp
  qed
qed

lemma max_by_ge: "x \<in> set xs \<Longrightarrow> key x \<le> key (max_by key b xs)"
proof (induction xs arbitrary: b)
  case Nil
  then show ?case by simp
next
  case (Cons a xs)
  show ?case
  proof (cases "x = a")
    case True
    show ?thesis
    proof (cases "key a > key b")
      case gt: True
      then show ?thesis using max_by_ge_best[of key a xs] True by simp
    next
      case False
      then have "key a \<le> key b" by simp
      also have "key b \<le> key (max_by key b xs)" by (rule max_by_ge_best)
      finally show ?thesis using False True by simp
    qed
  next
    case False
    with Cons.prems have "x \<in> set xs" by simp
    then show ?thesis using Cons.IH by simp
  qed
qed

lemma py_max_some:
  assumes "xs \<noteq> []"
  shows "\<exists>m. py_max key xs = Some m \<and> m \<in> set xs \<and> (\<forall>x\<in>set xs. key x \<le> key m)"
proof -
  from assms obtain y ys where xs: "xs = y # ys" by (cases xs) auto
  have a: "max_by key y ys \<in> set (y # ys)" by (rule max_by_mem)
  have b: "\<forall>x\<in>set (y # ys). key x \<le> key (max_by key y ys)"
    using max_by_ge_best[of key y ys] max_by_ge[of _ ys key y] by auto
  show ?thesis unfolding xs py_max_def using a b by simp
qed

lemma in_same_sign_candidates:
  "p \<in> set (same_sign_candidates d bvs) \<longleftrightarrow>
     (\<exists>i. p = (i, \<bar>bvs ! i\<bar>) \<and> i < length bvs \<and> same_sign d (bvs ! i))"
  unfolding same_sign_candidates_def
  by (auto simp: in_set_enumerate_eq image_iff)


lemma best_bucket_idx_policy:
  assumes ne: "bvs \<noteq> []"
  shows "\<exists>best. best_bucket_idx d bvs = Some best \<and> best < length bvs \<and>
           (if \<exists>j<length bvs. same_sign d (bvs ! j)
            then same_sign d (bvs ! best) \<and>
                 (\<forall>j<length bvs. same_sign d (bvs ! j) \<longrightarrow> \<bar>bvs ! j\<bar> \<le> \<bar>bvs ! best\<bar>)
            else (\<forall>j<length bvs. \<bar>bvs ! j\<bar> \<le> \<bar>bvs ! best\<bar>))"
proof (cases "\<exists>j<length bvs. same_sign d (bvs ! j)")
  case True
  then obtain j0 where j0: "j0 < length bvs" "same_sign d (bvs ! j0)" by blast
  then have "(j0, \<bar>bvs ! j0\<bar>) \<in> set (same_sign_candidates d bvs)"
    unfolding in_same_sign_candidates by blast
  then have cne: "same_sign_candidates d bvs \<noteq> []" by auto
  from py_max_some[OF cne, of snd] obtain m where
    m: "py_max snd (same_sign_candidates d bvs) = Some m"
       "m \<in> set (same_sign_candidates d bvs)"
       "\<forall>x\<in>set (same_sign_candidates d bvs). snd x \<le> snd m" by blast
  from m(2) obtain i where i: "m = (i, \<bar>bvs ! i\<bar>)" "i < length bvs" "same_sign d (bvs ! i)"
    unfolding in_same_sign_candidates by blast
  have mx: "\<forall>j<length bvs. same_sign d (bvs ! j) \<longrightarrow> \<bar>bvs ! j\<bar> \<le> \<bar>bvs ! i\<bar>"
  proof (intro allI impI)
    fix j assume "j < length bvs" "same_sign d (bvs ! j)"
    then have "(j, \<bar>bvs ! j\<bar>) \<in> set (same_sign_candidates d bvs)"
      unfolding in_same_sign_candidates by blast
    with m(3) have "snd (j, \<bar>bvs ! j\<bar>) \<le> snd m" by blast
    then show "\<bar>bvs ! j\<bar> \<le> \<bar>bvs ! i\<bar>" using i(1) by simp
  qed
  have "best_bucket_idx d bvs = Some i"
    using ne cne m(1) i(1) by (simp add: best_bucket_idx_def)
  then show ?thesis using True i(2,3) mx by simp
next
  case False
  have cne: "same_sign_candidates d bvs = []"
  proof (rule ccontr)
    assume "same_sign_candidates d bvs \<noteq> []"
    then obtain p where "p \<in> set (same_sign_candidates d bvs)"
      by (cases "same_sign_candidates d bvs") auto
    then show False using False unfolding in_same_sign_candidates by blast
  qed
  have une: "[0..<length bvs] \<noteq> []" using ne by simp
  from py_max_some[OF une, of "\<lambda>i. \<bar>bvs ! i\<bar>"] obtain m where
    m: "py_max (\<lambda>i. \<bar>bvs ! i\<bar>) [0..<length bvs] = Some m" "m \<in> set [0..<length bvs]"
       "\<forall>x\<in>set [0..<length bvs]. \<bar>bvs ! x\<bar> \<le> \<bar>bvs ! m\<bar>" by blast
  have "best_bucket_idx d bvs = Some m"
    using ne cne m(1) by (simp add: best_bucket_idx_def)
  then show ?thesis using False m(2,3) by simp
qed

section \<open>Properties of the reconciler\<close>











lemma floor_rat_numeral:
  "\<lfloor>numeral a / numeral b :: rat\<rfloor> = numeral a div numeral b"
  "\<lfloor>- (numeral a / numeral b) :: rat\<rfloor> = - numeral a div numeral b"
  "\<lfloor>1 / numeral b :: rat\<rfloor> = 1 div numeral b"
  "\<lfloor>- (1 / numeral b) :: rat\<rfloor> = - 1 div numeral b"
  using floor_divide_of_int_eq[of "numeral a" "numeral b", where ?'a = rat]
        floor_divide_of_int_eq[of "- numeral a" "numeral b", where ?'a = rat]
        floor_divide_of_int_eq[of 1 "numeral b", where ?'a = rat]
        floor_divide_of_int_eq[of "- 1" "numeral b", where ?'a = rat]
  by simp_all

lemmas scenario_defs =
  adjustable_columns_def bucket_columns_def scenario_table_def scenario_row_def
  scenario_balance_def is_bucket_column_def ilike_match_def lower_def lower_char_def is_digit_def

lemma those_quantize_checked:
  "those (map (\<lambda>c. quantize_checked (f c)) cs) = Some vs \<Longrightarrow> vs = map (\<lambda>c. quantize (f c)) cs"
proof (induction cs arbitrary: vs)
  case Nil
  then show ?case by simp
next
  case (Cons c cs)
  then show ?case
    by (auto simp: quantize_checked_def split: option.splits if_splits)
qed

lemma quantize_checked_Some: "quantize_checked x = Some q \<Longrightarrow> q = quantize x"
  by (simp add: quantize_checked_def split: if_splits)

lemma row_action_Adjust:
  assumes "row_action bc rc (Some bal) = Adjust col nv"
  shows "\<exists>best. best < length bc \<and> col = bc ! best
           \<and> dec_sub (quantize bal) (py_sum (map (\<lambda>c. quantize (coalesce0 (rc_num rc c))) bc)) \<noteq> 0
           \<and> best_bucket_idx
                (dec_sub (quantize bal) (py_sum (map (\<lambda>c. quantize (coalesce0 (rc_num rc c))) bc)))
                (map (\<lambda>c. quantize (coalesce0 (rc_num rc c))) bc) = Some best
           \<and> nv = quantize (dec_add (quantize (coalesce0 (rc_num rc (bc ! best))))
                    (dec_sub (quantize bal)
                       (py_sum (map (\<lambda>c. quantize (coalesce0 (rc_num rc c))) bc))))"
proof -
  let ?vs = "map (\<lambda>c. quantize (coalesce0 (rc_num rc c))) bc"
  obtain vs where vs: "those (map (\<lambda>col. quantize_checked (coalesce0 (rc_num rc col))) bc) = Some vs"
    using assms by (cases "those (map (\<lambda>col. quantize_checked (coalesce0 (rc_num rc col))) bc)")
                   (simp_all add: row_action_def)
  have vs_eq: "vs = ?vs" by (rule those_quantize_checked[OF vs])
  obtain ds where ds: "quantize_checked (db_bucket_sum bc rc) = Some ds"
    using assms vs by (cases "quantize_checked (db_bucket_sum bc rc)")
                      (simp_all add: row_action_def)
  obtain tb where tb: "quantize_checked bal = Some tb"
    using assms vs ds by (cases "quantize_checked bal") (simp_all add: row_action_def Let_def)
  have tb_eq: "tb = quantize bal" by (rule quantize_checked_Some[OF tb])
  let ?d = "dec_sub (quantize bal) (py_sum ?vs)"
  have red: "row_action bc rc (Some bal) =
        (if ?d = 0 then AlreadyBalanced
         else case best_bucket_idx ?d ?vs of
                None \<Rightarrow> RowError
              | Some best \<Rightarrow>
                  if best \<ge> length bc then RowError
                  else case quantize_checked (dec_add (?vs ! best) ?d) of
                         None \<Rightarrow> RowError
                       | Some new_value \<Rightarrow> Adjust (bc ! best) new_value)"
    unfolding row_action_def vs ds tb option.case Let_def vs_eq tb_eq ..
  have d0: "?d \<noteq> 0" using assms unfolding red by (auto split: if_splits)
  obtain best where best: "best_bucket_idx ?d ?vs = Some best"
    using assms d0 unfolding red by (cases "best_bucket_idx ?d ?vs") simp_all
  have lt: "best < length bc"
    using assms d0 unfolding red best by (auto split: if_splits)
  have nth: "?vs ! best = quantize (coalesce0 (rc_num rc (bc ! best)))"
    using lt by simp
  have red2: "row_action bc rc (Some bal) =
        (case quantize_checked (dec_add (?vs ! best) ?d) of
           None \<Rightarrow> RowError
         | Some new_value \<Rightarrow> Adjust (bc ! best) new_value)"
    unfolding red best option.case using d0 lt by (simp only: if_False not_le[symmetric])
  obtain q where q: "quantize_checked (dec_add (?vs ! best) ?d) = Some q"
    using assms unfolding red2
    by (cases "quantize_checked (dec_add (?vs ! best) ?d)") (simp_all only: option.case row_action.distinct)
  have res: "Adjust col nv = Adjust (bc ! best) q"
    using assms unfolding red2 q option.case by (rule sym)
  have "nv = quantize (dec_add (?vs ! best) ?d)"
    using res quantize_checked_Some[OF q] by simp
  then have nv: "nv = quantize (dec_add (quantize (coalesce0 (rc_num rc (bc ! best)))) ?d)"
    unfolding nth .
  have col: "col = bc ! best" using res by simp
  show ?thesis using lt col d0 best nv by blast
qed

lemmas decimal_defs =
  quantize_checked_def quantize_def coalesce0_def py_sum_def dec_add_def dec_sub_def
  ctx_round_def floor_rat_numeral

lemmas choice_defs =
  best_bucket_idx_def same_sign_candidates_def same_sign_def py_max_def enumerate_eq_zip

lemma scenario_columns:
  "adjustable_columns scenario_table
     = [''bucket_001_20250430_20250507'', ''bucket_002_20250508_20250608'',
        ''bucket_003_20250609_20300609'']"
  by (simp add: scenario_defs)

lemma scenario_action:
  "row_action [''bucket_001_20250430_20250507'', ''bucket_002_20250508_20250608'',
        ''bucket_003_20250609_20300609''] scenario_row (Some 1200)
     = Adjust ''bucket_002_20250508_20250608'' 1200"
  by (simp add: row_action_def db_bucket_sum_def scenario_row_def decimal_defs choice_defs Let_def)

lemma negative_action:
  "row_action [''bucket_001_20250430_20250507'', ''bucket_002_20250508_20250608'',
        ''bucket_003_20250609_20300609''] negative_row (Some (- 300))
     = Adjust ''bucket_001_20250430_20250507'' 200"
  by (simp add: row_action_def db_bucket_sum_def negative_row_def scenario_row_def decimal_defs choice_defs Let_def)

text \<open>
  Claim C2, as written, does not hold. The row of the worked snapshot with buckets
  0, -500 and 0 and a target of -300 has the positive difference 200; no bucket is
  positive and the second has the largest absolute value, yet the reconciler adds the
  difference to the first bucket, whose value is zero: the test of the code for a
  positive difference accepts every bucket that is not negative.
\<close>

theorem bucket_policy_counterexample:
  "adjustable_columns scenario_table
     = [''bucket_001_20250430_20250507'', ''bucket_002_20250508_20250608'',
        ''bucket_003_20250609_20300609''] \<and>
   map (\<lambda>col. rc_num negative_row col) (adjustable_columns scenario_table)
     = [Some 0, Some (- 500), Some 0] \<and>
   row_action (adjustable_columns scenario_table) negative_row (Some (- 300))
     = Adjust ''bucket_001_20250430_20250507'' 200"
  unfolding scenario_columns using negative_action
  by (simp add: negative_row_def)

text \<open>
  Claim C2, amended. Whenever the reconciler adjusts a row, the difference being the
  quantized target balance minus the sum of the quantized bucket values, the adjusted
  column is the bucket column at an index \<open>best\<close> chosen as follows. A bucket qualifies when
  the difference is positive and its value is zero or positive, or when the difference
  is negative and its value is negative. When some bucket qualifies, \<open>best\<close> qualifies and
  no qualifying bucket has a larger absolute value; when none does, no bucket at all
  has a larger absolute value than \<open>best\<close>. The value written is the old value plus the
  difference, quantized.
\<close>

theorem adjusted_bucket_policy:
  fixes bucket_cols rc n_balance col new_value
  defines "val \<equiv> \<lambda>j. quantize (coalesce0 (rc_num rc (bucket_cols ! j)))"
  defines "difference \<equiv>
     dec_sub (quantize n_balance)
       (py_sum (map (\<lambda>c. quantize (coalesce0 (rc_num rc c))) bucket_cols))"
  assumes "row_action bucket_cols rc (Some n_balance) = Adjust col new_value"
  shows "\<exists>best<length bucket_cols.
           col = bucket_cols ! best \<and>
           new_value = quantize (dec_add (val best) difference) \<and>
           difference \<noteq> 0 \<and>
           (if \<exists>j<length bucket_cols.
                  (difference > 0 \<and> val j \<ge> 0) \<or> (difference < 0 \<and> val j < 0)
            then ((difference > 0 \<and> val best \<ge> 0) \<or> (difference < 0 \<and> val best < 0)) \<and>
                 (\<forall>j<length bucket_cols.
                     (difference > 0 \<and> val j \<ge> 0) \<or> (difference < 0 \<and> val j < 0)
                     \<longrightarrow> \<bar>val j\<bar> \<le> \<bar>val best\<bar>)
            else (\<forall>j<length bucket_cols. \<bar>val j\<bar> \<le> \<bar>val best\<bar>))"
proof -
  let ?vs = "map (\<lambda>c. quantize (coalesce0 (rc_num rc c))) bucket_cols"
  have len: "length ?vs = length bucket_cols" by simp
  have nth: "\<And>j. j < length bucket_cols \<Longrightarrow> ?vs ! j = val j"
    by (simp add: val_def)
  from row_action_Adjust[OF assms(3)] obtain best where
    lt: "best < length bucket_cols" and col: "col = bucket_cols ! best"
    and d0: "difference \<noteq> 0"
    and idx: "best_bucket_idx difference ?vs = Some best"
    and nv: "new_value = quantize (dec_add (val best) difference)"
    unfolding difference_def val_def by blast
  have ne: "?vs \<noteq> []" using lt by auto
  from best_bucket_idx_policy[OF ne, of difference] obtain b' where
    b': "best_bucket_idx difference ?vs = Some b'"
    and pol0: "if \<exists>j<length ?vs. same_sign difference (?vs ! j)
     then same_sign difference (?vs ! b') \<and>
          (\<forall>j<length ?vs. same_sign difference (?vs ! j) \<longrightarrow> \<bar>?vs ! j\<bar> \<le> \<bar>?vs ! b'\<bar>)
     else (\<forall>j<length ?vs. \<bar>?vs ! j\<bar> \<le> \<bar>?vs ! b'\<bar>)"
    by blast
  have bb: "b' = best" using b' idx by simp
  have ex: "(\<exists>j<length ?vs. same_sign difference (?vs ! j))
              \<longleftrightarrow> (\<exists>j<length bucket_cols. same_sign difference (val j))"
    unfolding len using nth by auto
  have pol': "if \<exists>j<length bucket_cols. same_sign difference (val j)
     then same_sign difference (val best) \<and>
          (\<forall>j<length bucket_cols. same_sign difference (val j) \<longrightarrow> \<bar>val j\<bar> \<le> \<bar>val best\<bar>)
     else (\<forall>j<length bucket_cols. \<bar>val j\<bar> \<le> \<bar>val best\<bar>)"
  proof (cases "\<exists>j<length bucket_cols. same_sign difference (val j)")
    case True
    then have t: "\<exists>j<length ?vs. same_sign difference (?vs ! j)" using ex by blast
    have p: "same_sign difference (?vs ! best)"
      "\<forall>j<length ?vs. same_sign difference (?vs ! j) \<longrightarrow> \<bar>?vs ! j\<bar> \<le> \<bar>?vs ! best\<bar>"
      using pol0 t unfolding bb by presburger+
    have p1: "same_sign difference (val best)" using p(1) nth[OF lt] by simp
    have p2: "\<forall>j<length bucket_cols. same_sign difference (val j) \<longrightarrow> \<bar>val j\<bar> \<le> \<bar>val best\<bar>"
    proof (intro allI impI)
      fix j assume j: "j < length bucket_cols" "same_sign difference (val j)"
      have "same_sign difference (?vs ! j)" using j nth[OF j(1)] by simp
      then have "\<bar>?vs ! j\<bar> \<le> \<bar>?vs ! best\<bar>" using p(2) j(1) len by simp
      then show "\<bar>val j\<bar> \<le> \<bar>val best\<bar>" using nth[OF j(1)] nth[OF lt] by simp
    qed
    show ?thesis using True p1 p2 by (simp only: if_True simp_thms)
  next
    case False
    then have f: "\<not> (\<exists>j<length ?vs. same_sign difference (?vs ! j))" using ex by blast
    have p: "\<forall>j<length ?vs. \<bar>?vs ! j\<bar> \<le> \<bar>?vs ! best\<bar>"
      using pol0 f unfolding bb by presburger
    have p2: "\<forall>j<length bucket_cols. \<bar>val j\<bar> \<le> \<bar>val best\<bar>"
    proof (intro allI impI)
      fix j assume j: "j < length bucket_cols"
      have "\<bar>?vs ! j\<bar> \<le> \<bar>?vs ! best\<bar>" using p j len by simp
      then show "\<bar>val j\<bar> \<le> \<bar>val best\<bar>" using nth[OF j] nth[OF lt] by simp
    qed
    show ?thesis using False p2 by (simp only: if_False)
  qed
  show ?thesis
    using lt col nv d0 pol' unfolding same_sign_def by blast
qed

text \<open>The policy theorem applied to the worked snapshot (target 1200, buckets 0, 1000, 0).\<close>

theorem adjusted_bucket_policy_witness:
  "row_action (adjustable_columns scenario_table) scenario_row (Some 1200)
     = Adjust ''bucket_002_20250508_20250608'' 1200 \<and>
   (\<exists>best. best < length (adjustable_columns scenario_table) \<and>
      ''bucket_002_20250508_20250608'' = adjustable_columns scenario_table ! best \<and>
      (1200 :: rat) = quantize (dec_add
         (quantize (coalesce0 (rc_num scenario_row (adjustable_columns scenario_table ! best))))
         (dec_sub (quantize 1200)
            (py_sum (map (\<lambda>c. quantize (coalesce0 (rc_num scenario_row c)))
                       (adjustable_columns scenario_table))))))"
proof -
  have h: "row_action (adjustable_columns scenario_table) scenario_row (Some 1200)
             = Adjust ''bucket_002_20250508_20250608'' 1200"
    unfolding scenario_columns by (rule scenario_action)
  from adjusted_bucket_policy[OF h] have
    "\<exists>best. best < length (adjustable_columns scenario_table) \<and>
      ''bucket_002_20250508_20250608'' = adjustable_columns scenario_table ! best \<and>
      (1200 :: rat) = quantize (dec_add
         (quantize (coalesce0 (rc_num scenario_row (adjustable_columns scenario_table ! best))))
         (dec_sub (quantize 1200)
            (py_sum (map (\<lambda>c. quantize (coalesce0 (rc_num scenario_row c)))
                       (adjustable_columns scenario_table)))))"
    by blast
  with h show ?thesis by blast
qed


























section \<open>Properties of the respreader\<close>

lemma spread_splits_filter:
  "spread_splits bm amt splits vals
     = spread_splits bm amt (filter (\<lambda>(no, pct). map_of bm no \<noteq> None) splits) vals"
  unfolding spread_splits_def
  by (induction splits arbitrary: vals) (auto split: option.splits)

lemma foldl_guard_filter:
  "foldl (\<lambda>a x. if P x then f a x else a) a xs
     = foldl (\<lambda>a x. if P x then f a x else a) a (filter P xs)"
proof (induction xs arbitrary: a)
  case Nil
  show ?case by simp
next
  case (Cons x xs)
  show ?case
  proof (cases "P x")
    case True
    then show ?thesis using Cons.IH[of "f a x"] by simp
  next
    case False
    then show ?thesis using Cons.IH[of a] by simp
  qed
qed

lemma update_not_Nil: "AList.update k v d \<noteq> []"
  by (cases d) auto

lemma foldl_update_not_Nil:
  "d \<noteq> [] \<Longrightarrow> foldl (\<lambda>d (k, v). AList.update k v d) d kvs \<noteq> []"
proof (induction kvs arbitrary: d)
  case Nil
  then show ?case by simp
next
  case (Cons kv kvs)
  obtain k v where kv: "kv = (k, v)" by (cases kv)
  have "foldl (\<lambda>d (k, v). AList.update k v d) (AList.update k v d) kvs \<noteq> []"
    by (rule Cons.IH) (rule update_not_Nil)
  then show ?case by (simp add: kv)
qed

lemma dict_of_Nil_iff: "dict_of kvs = [] \<longleftrightarrow> kvs = []"
proof (cases kvs)
  case Nil
  then show ?thesis by (simp add: dict_of_def)
next
  case (Cons kv rest)
  obtain k v where kv: "kv = (k, v)" by (cases kv)
  have "foldl (\<lambda>d (k, v). AList.update k v d) (AList.update k v []) rest \<noteq> []"
    by (rule foldl_update_not_Nil) simp
  then show ?thesis using Cons kv by (simp add: dict_of_def)
qed

lemma pattern_splits_Nil_iff: "pattern_splits pat = [] \<longleftrightarrow> bp_splits pat = []"
  by (simp add: pattern_splits_def dict_of_Nil_iff)

lemma load_patterns_filter:
  "load_patterns pats = load_patterns (filter (\<lambda>pat. bp_splits pat \<noteq> []) pats)"
proof -
  have "load_patterns pats = load_patterns (filter (\<lambda>pat. pattern_splits pat \<noteq> []) pats)"
    unfolding load_patterns_def
    by (rule foldl_guard_filter[where P = "\<lambda>pat. pattern_splits pat \<noteq> []"])
  then show ?thesis by (simp add: pattern_splits_Nil_iff)
qed


text \<open>
  Claim C10. In the respreader a split counts only when its destination bucket number has
  a bucket column: the amounts spread for a row are the same as with the splits to
  unmapped bucket numbers removed, so that the portion \<open>amount * percentage / 100\<close> of
  such a split is added to no bucket; and a pattern without splits is treated as no
  pattern: the load gives the same result as with those patterns removed from the table.
\<close>

theorem unmapped_splits_discarded:
  "spread_row bucket_map splits row
     = spread_row bucket_map
         (filter (\<lambda>(dst_bucket_no, pct). map_of bucket_map dst_bucket_no \<noteq> None) splits) row
   \<and> load_report_behavioural pats src seq
     = load_report_behavioural (filter (\<lambda>pat. bp_splits pat \<noteq> []) pats) src seq"
proof
  show "spread_row bucket_map splits row
     = spread_row bucket_map
         (filter (\<lambda>(dst_bucket_no, pct). map_of bucket_map dst_bucket_no \<noteq> None) splits) row"
    by (simp only: spread_row_def spread_splits_filter[of bucket_map _ splits, symmetric])
  show "load_report_behavioural pats src seq
     = load_report_behavioural (filter (\<lambda>pat. bp_splits pat \<noteq> []) pats) src seq"
    by (simp only: load_report_behavioural_def load_patterns_filter[of pats, symmetric])
qed






lemma update_keys: "fst ` set (AList.update k v al) = insert k (fst ` set al)"
  by (induction al) auto







lemmas respread_defs =
  load_report_behavioural_def load_patterns_def pattern_splits_def dict_of_def
  like_bucket_columns_def bucket_no_of_def py_int_def strip_def is_space_def digits_value_def
  is_digit_def scenario_table_def scenario_row_def Let_def










section \<open>Properties of the consolidator\<close>

















end
